theory Spec2Isabelle
  imports
    Main
    "HOL-Library.Sublist"
    "HOL-Library.Char_ord"
    "HOL-Library.List_Lexorder"
begin

section \<open>The log viewer's view engine (log\_viewer/tui.go)\<close>

text \<open>
  A shallow embedding of the interactive view engine of the log viewer: the model
  (\<open>Model\<close>), the filter (\<open>filterLogs\<close>), the transition function (\<open>Update\<close>), the
  render pipeline (\<open>View\<close> and the three panel renderers) and the field annotator.
  Go strings are byte sequences and are modelled as \<open>string\<close> (a list of bytes); Go's
  \<open>int\<close> is modelled as \<open>int\<close>, with the 64-bit wrap-around written out where a value
  comes from user input (the line number of a jump). The sizes of the terminal and the
  indices into the records are far from the 64-bit bounds, and the arithmetic on them is
  that of the integers.
\<close>

subsection \<open>Strings: the functions of package strings that are used\<close>

text \<open>\<open>strings.HasPrefix\<close>, bytewise.\<close>

fun HasPrefix :: "string \<Rightarrow> string \<Rightarrow> bool" where
  "HasPrefix s [] = True"
| "HasPrefix [] (c # cs) = False"
| "HasPrefix (x # xs) (c # cs) = (x = c \<and> HasPrefix xs cs)"

text \<open>\<open>strings.Contains(s, substr)\<close>: \<open>substr\<close> occurs in \<open>s\<close> as a contiguous run of bytes.\<close>

fun Contains :: "string \<Rightarrow> string \<Rightarrow> bool" where
  "Contains [] substr = (substr = [])"
| "Contains (x # xs) substr = (HasPrefix (x # xs) substr \<or> Contains xs substr)"

text \<open>
  \<open>strings.Split(s, sep)\<close> for a one-byte separator: the pieces between the occurrences
  of the separator; a string without the separator (the empty one too) is one piece.
\<close>

fun Split :: "string \<Rightarrow> char \<Rightarrow> string list" where
  "Split [] sep = [[]]"
| "Split (c # cs) sep =
     (if c = sep then [] # Split cs sep
      else (case Split cs sep of
              [] \<Rightarrow> [[c]]
            | p # ps \<Rightarrow> (c # p) # ps))"

text \<open>\<open>strings.Join(elems, sep)\<close>.\<close>

fun Join :: "string list \<Rightarrow> string \<Rightarrow> string" where
  "Join [] sep = []"
| "Join [x] sep = x"
| "Join (x # y # ys) sep = x @ sep @ Join (y # ys) sep"

subsection \<open>Parsed log records (log\_parser.go)\<close>

text \<open>
  A field value is what \<open>encoding/json\<close> stores in an \<open>interface{}\<close>: nil, a bool, a
  float64, a string, a slice or a map. The type \<open>'f\<close> stands for float64.
\<close>

datatype 'f jvalue =
    JNull
  | JBool bool
  | JNumber 'f
  | JString string
  | JArray "'f jvalue list"
  | JObject "(string \<times> 'f jvalue) list"

text \<open>
  \<open>ParsedLog\<close>. The map \<open>Fields\<close> is kept as the list of its entries; a key is looked up
  with \<open>map_of\<close>, and a \<open>range\<close> loop visits the entries.
\<close>

record 'f ParsedLog =
  RawLog :: string
  Fields :: "(string \<times> 'f jvalue) list"
  LineNumber :: int

subsection \<open>The libraries the view engine calls\<close>

text \<open>
  A lipgloss style is the chain of setters that builds it, in the order of the source.
\<close>

datatype style_opt =
    Foreground string
  | Background string
  | Bold bool
  | Italic bool
  | Padding "int list"
  | PaddingLeft int
  | PaddingRight int
  | MarginTop int
  | MarginBottom int
  | Border
  | BorderForeground string
  | BorderTop bool
  | BorderBottom bool
  | Width int
  | Height int

type_synonym style = "style_opt list"

text \<open>
  The library functions whose results depend on Unicode tables, floating point, JSON
  syntax or terminal layout are parameters of the model, collected in one record:
  \<^item> \<open>Render\<close>: lipgloss \<open>Style.Render\<close>;
  \<^item> \<open>JoinVertical\<close>: \<open>lipgloss.JoinVertical(lipgloss.Left, ...)\<close>;
  \<^item> \<open>ToLower\<close>, \<open>TrimSpace\<close>: the functions of package strings;
  \<^item> \<open>FormatFloat\<close>: the \<open>%v\<close> rendering of a float64;
  \<^item> \<open>FloatToInt\<close>: the conversion \<open>int(code)\<close>;
  \<^item> \<open>Unmarshal\<close>: \<open>json.Unmarshal\<close> into an \<open>interface{}\<close>, \<open>None\<close> when it returns an error;
  \<^item> \<open>MarshalIndent\<close>: \<open>json.MarshalIndent(v, prefix, indent)\<close>, \<open>None\<close> on an error;
  \<^item> \<open>ClockOfRFC3339\<close>: \<open>time.Parse(time.RFC3339, s)\<close> followed by \<open>Format("15:04:05")\<close>,
    \<open>None\<close> when the parse fails;
  \<^item> \<open>ToRunes\<close>, \<open>OfRunes\<close>: the conversions \<open>[]rune(s)\<close> and \<open>string(runes)\<close>.
\<close>

record 'f lib =
  Render :: "style \<Rightarrow> string \<Rightarrow> string"
  JoinVertical :: "string list \<Rightarrow> string"
  ToLower :: "string \<Rightarrow> string"
  TrimSpace :: "string \<Rightarrow> string"
  FormatFloat :: "'f \<Rightarrow> string"
  FloatToInt :: "'f \<Rightarrow> int"
  Unmarshal :: "string \<Rightarrow> 'f jvalue option"
  MarshalIndent :: "'f jvalue \<Rightarrow> string \<Rightarrow> string \<Rightarrow> string option"
  ClockOfRFC3339 :: "string \<Rightarrow> string option"
  ToRunes :: "string \<Rightarrow> nat list"
  OfRunes :: "nat list \<Rightarrow> string"

text \<open>
  \<open>fmt.Sprint(v)\<close>, which is \<open>fmt.Sprintf("%v", v)\<close>, on a field value: a string is
  itself, nil is \<open><nil>\<close>, a slice is \<open>[a b]\<close>, a map is \<open>map[k:v k:v]\<close> with the keys
  in increasing order.
\<close>

fun Sprint :: "('f \<Rightarrow> string) \<Rightarrow> 'f jvalue \<Rightarrow> string" where
  "Sprint ff JNull = ''<nil>''"
| "Sprint ff (JBool b) = (if b then ''true'' else ''false'')"
| "Sprint ff (JNumber x) = ff x"
| "Sprint ff (JString s) = s"
| "Sprint ff (JArray vs) = ''['' @ Join (map (Sprint ff) vs) '' '' @ '']''"
| "Sprint ff (JObject kvs) =
     ''map['' @
     Join (map (\<lambda>kv. fst kv @ '':'' @ snd kv)
             (sort_key fst (map (\<lambda>kv. (fst kv, Sprint ff (snd kv))) kvs))) '' ''
     @ '']''"

subsection \<open>The filter (tui.go, filterLogs)\<close>

text \<open>
  The inner loop of \<open>filterLogs\<close> over the fields of one record: it stops with a match
  at the first entry whose key or rendered value contains the lowered query.
\<close>

fun fieldsContain :: "'f lib \<Rightarrow> (string \<times> 'f jvalue) list \<Rightarrow> string \<Rightarrow> bool" where
  "fieldsContain L [] lowerQuery = False"
| "fieldsContain L ((key, val) # rest) lowerQuery =
     (if Contains (ToLower L key) lowerQuery \<or>
         Contains (ToLower L (Sprint (FormatFloat L) val)) lowerQuery
      then True
      else fieldsContain L rest lowerQuery)"

text \<open>The outer loop: \<open>filtered\<close> is the slice that the loop appends to.\<close>

fun filterLoop ::
  "'f lib \<Rightarrow> 'f ParsedLog list \<Rightarrow> string \<Rightarrow> 'f ParsedLog list \<Rightarrow> 'f ParsedLog list" where
  "filterLoop L [] lowerQuery filtered = filtered"
| "filterLoop L (log # rest) lowerQuery filtered =
     (if Contains (ToLower L (RawLog log)) lowerQuery
      then filterLoop L rest lowerQuery (filtered @ [log])
      else if fieldsContain L (Fields log) lowerQuery
      then filterLoop L rest lowerQuery (filtered @ [log])
      else filterLoop L rest lowerQuery filtered)"

definition filterLogs :: "'f lib \<Rightarrow> 'f ParsedLog list \<Rightarrow> string \<Rightarrow> 'f ParsedLog list" where
  "filterLogs L logs query =
     (if query = [] then logs else filterLoop L logs (ToLower L query) [])"

text \<open>
  The specification's reading of a match: the record's raw text, or one of its field keys,
  or one of its field values in string form, contains the query when both are lowered.
\<close>

definition containsFold :: "'f lib \<Rightarrow> string \<Rightarrow> string \<Rightarrow> bool" where
  "containsFold L s q = sublist (ToLower L q) (ToLower L s)"

definition recordMatches :: "'f lib \<Rightarrow> string \<Rightarrow> 'f ParsedLog \<Rightarrow> bool" where
  "recordMatches L q r =
     (containsFold L (RawLog r) q \<or>
      (\<exists>kv \<in> set (Fields r).
         containsFold L (fst kv) q \<or> containsFold L (Sprint (FormatFloat L) (snd kv)) q))"

subsection \<open>Integers from text (strconv.Atoi)\<close>

text \<open>
  \<open>strconv.Atoi\<close> for a 64-bit \<open>int\<close>: an optional sign, then at least one decimal
  digit and nothing else; a value outside the 64-bit range is an error. \<open>None\<close> is the
  returned error.
\<close>

definition isDigit :: "char \<Rightarrow> bool" where
  "isDigit c = (c \<in> set ''0123456789'')"

fun digitsValue :: "string \<Rightarrow> int \<Rightarrow> int" where
  "digitsValue [] n = n"
| "digitsValue (c # cs) n = digitsValue cs (n * 10 + (of_char c - 48))"

definition Atoi :: "string \<Rightarrow> int option" where
  "Atoi s =
     (case s of
        [] \<Rightarrow> None
      | c # cs \<Rightarrow>
          (let neg = (c = CHR ''-'');
               ds = (if c = CHR ''-'' \<or> c = CHR ''+'' then cs else s)
           in if ds = [] \<or> \<not> list_all isDigit ds then None
              else (let un = digitsValue ds 0
                    in if neg then (if un > 2 ^ 63 then None else Some (- un))
                       else (if un \<ge> 2 ^ 63 then None else Some un))))"

text \<open>The value of a 64-bit signed integer after an operation that may overflow.\<close>

definition wrap64 :: "int \<Rightarrow> int" where
  "wrap64 x = (x + 2 ^ 63) mod 2 ^ 64 - 2 ^ 63"

subsection \<open>Messages (bubbletea)\<close>

text \<open>
  A key message has a type, the typed runes (as the bytes of \<open>string(msg.Runes)\<close>) and
  the alt modifier. \<open>KeyOther name\<close> is any key type that the program does not name, with
  the name that the library gives it.
\<close>

datatype KeyType =
    KeyRunes
  | KeyBackspace
  | KeyEnter
  | KeyEsc
  | KeyUp
  | KeyDown
  | KeyCtrlC
  | KeyOther string

record Key =
  Type :: KeyType
  Runes :: string
  Alt :: bool

fun keyNames :: "KeyType \<Rightarrow> string" where
  "keyNames KeyRunes = ''runes''"
| "keyNames KeyBackspace = ''backspace''"
| "keyNames KeyEnter = ''enter''"
| "keyNames KeyEsc = ''esc''"
| "keyNames KeyUp = ''up''"
| "keyNames KeyDown = ''down''"
| "keyNames KeyCtrlC = ''ctrl+c''"
| "keyNames (KeyOther name) = name"

text \<open>\<open>msg.String()\<close>: the runes of a rune key, the name of any other, after \<open>alt+\<close>.\<close>

definition KeyString :: "Key \<Rightarrow> string" where
  "KeyString k =
     (if Alt k then ''alt+'' else []) @
     (if Type k = KeyRunes then Runes k else keyNames (Type k))"

datatype Msg =
    KeyMsg Key
  | WindowSizeMsg int int
  | OtherMsg

datatype Cmd = Quit

subsection \<open>The model and its transition function (tui.go, Update)\<close>

record 'f Model =
  logs :: "'f ParsedLog list"
  filteredLogs :: "'f ParsedLog list"
  selectedLogIndex :: int
  searchMode :: bool
  jumpMode :: bool
  searchQuery :: string
  width :: int
  height :: int

text \<open>The model that \<open>main\<close> starts the program with: every other field is zero.\<close>

definition initModel :: "'f ParsedLog list \<Rightarrow> 'f Model" where
  "initModel parsedLogs =
     \<lparr>logs = parsedLogs, filteredLogs = parsedLogs, selectedLogIndex = 0,
      searchMode = False, jumpMode = False, searchQuery = [], width = 0, height = 0\<rparr>"

text \<open>The \<open>enter\<close> case in jump mode.\<close>

definition jumpCommit :: "'f Model \<Rightarrow> 'f Model" where
  "jumpCommit m =
     (let m1 = (case Atoi (searchQuery m) of
                  Some lineNum \<Rightarrow>
                    (let targetIdx = wrap64 (lineNum - 1)
                     in if targetIdx \<ge> 0 \<and> targetIdx < int (length (logs m))
                        then m\<lparr>selectedLogIndex := targetIdx\<rparr>
                        else m)
                | None \<Rightarrow> m)
      in m1\<lparr>jumpMode := False, searchQuery := []\<rparr>)"

text \<open>The \<open>enter\<close> case in search mode.\<close>

definition searchCommit :: "'f lib \<Rightarrow> 'f Model \<Rightarrow> 'f Model" where
  "searchCommit L m =
     (let m1 = m\<lparr>filteredLogs := filterLogs L (logs m) (searchQuery m)\<rparr>;
          m2 = (if length (filteredLogs m1) > 0 then m1\<lparr>selectedLogIndex := 0\<rparr> else m1)
      in m2\<lparr>searchMode := False, searchQuery := []\<rparr>)"

text \<open>The \<open>default\<close> case: editing the input buffer.\<close>

definition editQuery :: "'f Model \<Rightarrow> Key \<Rightarrow> 'f Model" where
  "editQuery m k =
     (if searchMode m \<or> jumpMode m
      then (if Type k = KeyBackspace \<and> length (searchQuery m) > 0
            then m\<lparr>searchQuery := butlast (searchQuery m)\<rparr>
            else if Type k = KeyRunes
            then m\<lparr>searchQuery := searchQuery m @ Runes k\<rparr>
            else m)
      else m)"

definition Update :: "'f lib \<Rightarrow> 'f Model \<Rightarrow> Msg \<Rightarrow> 'f Model \<times> Cmd option" where
  "Update L m msg =
     (case msg of
        KeyMsg k \<Rightarrow>
          (let s = KeyString k
           in if s = ''ctrl+c'' \<or> s = ''q'' then (m, Some Quit)
              else if s = ''up'' \<or> s = ''k''
              then (if selectedLogIndex m > 0
                    then m\<lparr>selectedLogIndex := selectedLogIndex m - 1\<rparr> else m, None)
              else if s = ''down'' \<or> s = ''j''
              then (if selectedLogIndex m < int (length (filteredLogs m)) - 1
                    then m\<lparr>selectedLogIndex := selectedLogIndex m + 1\<rparr> else m, None)
              else if s = ''/''
              then (m\<lparr>jumpMode := True, searchMode := False, searchQuery := []\<rparr>, None)
              else if s = ''s''
              then (m\<lparr>searchMode := True, jumpMode := False, searchQuery := []\<rparr>, None)
              else if s = ''esc''
              then (m\<lparr>searchMode := False, jumpMode := False, searchQuery := []\<rparr>, None)
              else if s = ''enter''
              then (if jumpMode m then jumpCommit m
                    else if searchMode m then searchCommit L m
                    else m, None)
              else (editQuery m k, None))
      | WindowSizeMsg w h \<Rightarrow> (m\<lparr>width := w, height := h\<rparr>, None)
      | OtherMsg \<Rightarrow> (m, None))"

text \<open>The model after a sequence of messages, and the states the program can reach.\<close>

definition step :: "'f lib \<Rightarrow> 'f Model \<Rightarrow> Msg \<Rightarrow> 'f Model" where
  "step L m msg = fst (Update L m msg)"

definition run :: "'f lib \<Rightarrow> 'f Model \<Rightarrow> Msg list \<Rightarrow> 'f Model" where
  "run L m msgs = foldl (step L) m msgs"

text \<open>The three modes of the specification, read from the two flags as \<open>View\<close> reads them.\<close>

datatype Mode = Normal | Searching | JumpingToLine

definition modeOf :: "'f Model \<Rightarrow> Mode" where
  "modeOf m = (if jumpMode m then JumpingToLine else if searchMode m then Searching else Normal)"

text \<open>Key messages by what they are.\<close>

definition key :: "KeyType \<Rightarrow> Msg" where
  "key t = KeyMsg \<lparr>Type = t, Runes = [], Alt = False\<rparr>"

definition typed :: "string \<Rightarrow> Msg" where
  "typed rs = KeyMsg \<lparr>Type = KeyRunes, Runes = rs, Alt = False\<rparr>"

definition isUp :: "Msg \<Rightarrow> bool" where
  "isUp msg = (case msg of KeyMsg k \<Rightarrow> KeyString k = ''up'' \<or> KeyString k = ''k'' | _ \<Rightarrow> False)"

definition isDown :: "Msg \<Rightarrow> bool" where
  "isDown msg = (case msg of KeyMsg k \<Rightarrow> KeyString k = ''down'' \<or> KeyString k = ''j'' | _ \<Rightarrow> False)"

definition isEnter :: "Msg \<Rightarrow> bool" where
  "isEnter msg = (case msg of KeyMsg k \<Rightarrow> KeyString k = ''enter'' | _ \<Rightarrow> False)"

subsection \<open>Decimal text of an integer (the verb \<open>%d\<close>)\<close>

fun natDigits :: "nat \<Rightarrow> string" where
  "natDigits n =
     (if n < 10 then [''0123456789'' ! n]
      else natDigits (n div 10) @ [''0123456789'' ! (n mod 10)])"

declare natDigits.simps [simp del]

definition Itoa :: "int \<Rightarrow> string" where
  "Itoa i = (if i < 0 then CHR ''-'' # natDigits (nat (- i)) else natDigits (nat i))"

subsection \<open>The field annotator (tui.go)\<close>

definition getResponseCodeExplanation :: "string \<Rightarrow> string" where
  "getResponseCodeExplanation code =
     (if code = ''200'' then ''OK''
      else if code = ''400'' then ''Bad Request''
      else if code = ''401'' then ''Unauthorized''
      else if code = ''403'' then ''Forbidden''
      else if code = ''404'' then ''Not Found''
      else if code = ''500'' then ''Internal Server Error''
      else if code = ''502'' then ''Bad Gateway''
      else if code = ''503'' then ''Service Unavailable''
      else if code = ''504'' then ''Gateway Timeout''
      else if code = ''0'' then ''no response (connection failed)''
      else [])"

definition getFailureExplanation :: "string \<Rightarrow> string" where
  "getFailureExplanation reason =
     (if Contains reason ''delayed_connect_error''
      then ''connection to upstream service failed'' else [])"

definition formatAddress :: "string \<Rightarrow> string" where
  "formatAddress val =
     (let parts = Split val (CHR '':'')
      in if length parts = 2 then ''IP: '' @ parts ! 0 @ '', Port: '' @ parts ! 1 else [])"

text \<open>The map literal of \<open>explainResponseFlags\<close>, as the list of its entries.\<close>

definition flagMap :: "(string \<times> string) list" where
  "flagMap =
     [(''UH'', ''upstream unhealthy''),
      (''UF'', ''upstream connection failure''),
      (''UO'', ''upstream overflow''),
      (''NR'', ''no route configured''),
      (''URX'', ''upstream request timeout''),
      (''DC'', ''downstream connection termination''),
      (''LH'', ''local service healthy''),
      (''UR'', ''upstream retry''),
      (''UC'', ''upstream connection termination''),
      (''DT'', ''downstream request timeout''),
      (''LR'', ''local service rejected''),
      (''RL'', ''rate limited''),
      (''UAEX'', ''unauthorized external service''),
      (''RLSE'', ''rate limited service error''),
      (''IH'', ''invalid HTTP response''),
      (''SI'', ''stream idle timeout''),
      (''DPE'', ''downstream protocol error''),
      (''UPE'', ''upstream protocol error''),
      (''NC'', ''no cluster found'')]"

text \<open>The loop over the parts; \<open>explanations\<close> is the slice it appends to.\<close>

fun explainLoop :: "'f lib \<Rightarrow> string list \<Rightarrow> string list \<Rightarrow> string list" where
  "explainLoop L [] explanations = explanations"
| "explainLoop L (flag # rest) explanations =
     (case map_of flagMap (TrimSpace L flag) of
        Some explanation \<Rightarrow> explainLoop L rest (explanations @ [explanation])
      | None \<Rightarrow> explainLoop L rest explanations)"

definition explainResponseFlags :: "'f lib \<Rightarrow> string \<Rightarrow> string" where
  "explainResponseFlags L flags =
     (let explanations = explainLoop L (Split flags (CHR '','')) []
      in if length explanations > 0 then Join explanations '', '' else [])"

subsection \<open>Styles (tui.go, the package variables)\<close>

definition highlightColor :: string where "highlightColor = ''39''"
definition normalColor :: string where "normalColor = ''252''"
definition headerColor :: string where "headerColor = ''105''"
definition errorColor :: string where "errorColor = ''196''"
definition warnColor :: string where "warnColor = ''214''"
definition jsonKeyColor :: string where "jsonKeyColor = ''105''"
definition jsonStringColor :: string where "jsonStringColor = ''83''"
definition jsonNullColor :: string where "jsonNullColor = ''245''"

definition headerStyle :: style where
  "headerStyle = [Foreground headerColor, Bold True, PaddingLeft 1, PaddingRight 1, MarginBottom 1]"

definition logStyle :: style where
  "logStyle = [Foreground normalColor]"

definition selectedLogStyle :: style where
  "selectedLogStyle = [Foreground highlightColor, Bold True, Background ''236'']"

definition searchStyle :: style where
  "searchStyle = [Foreground highlightColor, Background ''236'', Padding [0, 1], MarginTop 1]"

definition errorStyle :: style where
  "errorStyle = [Foreground errorColor, Bold True, Padding [1]]"

definition jsonKeyStyle :: style where
  "jsonKeyStyle = [Foreground jsonKeyColor, Bold True]"

definition jsonStringStyle :: style where
  "jsonStringStyle = [Foreground jsonStringColor]"

definition jsonNullStyle :: style where
  "jsonNullStyle = [Foreground jsonNullColor, Italic True]"

subsection \<open>The detail panel (tui.go, getFieldSafely, formatFieldValue, renderDetailView)\<close>

definition getFieldSafely :: "'f lib \<Rightarrow> (string \<times> 'f jvalue) list \<Rightarrow> string \<Rightarrow> string" where
  "getFieldSafely L flds k =
     (case map_of flds k of
        Some val \<Rightarrow>
          (if val = JNull then ''-''
           else (let str = Sprint (FormatFloat L) val
                 in if str = [] \<or> str = ''null'' then ''-'' else str))
      | None \<Rightarrow> ''-'')"

text \<open>The \<open>switch\<close> of \<open>formatFieldValue\<close> that chooses the explanation.\<close>

definition fieldExplanation :: "'f lib \<Rightarrow> string \<Rightarrow> string \<Rightarrow> string" where
  "fieldExplanation L field val =
     (if field = ''response_flags'' then explainResponseFlags L val
      else if field = ''response_code'' then getResponseCodeExplanation val
      else if field = ''upstream_transport_failure_reason'' then getFailureExplanation val
      else if field = ''duration''
      then (if val = ''0'' then ''request did not complete'' else [])
      else if field = ''downstream_local_address'' \<or> field = ''downstream_remote_address'' \<or>
              field = ''upstream_host''
      then formatAddress val
      else [])"

definition formatFieldValue :: "'f lib \<Rightarrow> string \<Rightarrow> string \<Rightarrow> string" where
  "formatFieldValue L field val =
     (if val = ''-'' then Render L jsonNullStyle ''-''
      else (let explanation = fieldExplanation L field val
            in if explanation \<noteq> []
               then Render L jsonStringStyle val @ '' '' @
                    Render L [Foreground ''242'', Italic True] (''('' @ explanation @ '')'')
               else Render L jsonStringStyle val))"

text \<open>The four groups of \<open>renderDetailView\<close>.\<close>

definition groups :: "(string \<times> string list) list" where
  "groups =
     [(''Request Info'',
       [''start_time'', ''method'', ''protocol'', ''authority'', ''path'',
        ''request_id'', ''user_agent'', ''client_ip'', ''x_forwarded_for'']),
      (''Response Info'',
       [''response_code'', ''response_code_details'', ''response_flags'',
        ''duration'', ''bytes_sent'', ''bytes_received'']),
      (''Upstream Info'',
       [''upstream_cluster'', ''upstream_host'', ''upstream_local_address'',
        ''upstream_service_time'', ''upstream_transport_failure_reason'']),
      (''Downstream Info'',
       [''downstream_local_address'', ''downstream_remote_address'',
        ''requested_server_name'', ''route_name''])]"

text \<open>The verb \<open>%-30s\<close> on a field name: spaces on the right up to 30 characters.\<close>

definition padRight30 :: "string \<Rightarrow> string" where
  "padRight30 s = s @ replicate (30 - length s) (CHR '' '')"

text \<open>What the inner loop writes for one field.\<close>

definition fieldLine :: "'f lib \<Rightarrow> (string \<times> 'f jvalue) list \<Rightarrow> string \<Rightarrow> string" where
  "fieldLine L flds field =
     (let val = getFieldSafely L flds field;
          fieldStr = Render L jsonKeyStyle (padRight30 field);
          valueStr = formatFieldValue L field val
      in fieldStr @ '': '' @ valueStr @ [CHR 0x0A])"

text \<open>What the outer loop writes for one group.\<close>

definition groupBlock :: "'f lib \<Rightarrow> (string \<times> 'f jvalue) list \<Rightarrow> string \<times> string list \<Rightarrow> string" where
  "groupBlock L flds grp =
     (let hasData = (\<exists>field \<in> set (snd grp). getFieldSafely L flds field \<noteq> ''-'')
      in Render L [Bold True, Foreground headerColor] (fst grp) @ [CHR 0x0A] @
         concat (map (fieldLine L flds) (snd grp)) @
         (if \<not> hasData then Render L jsonNullStyle (''No data available'' @ [CHR 0x0A]) else []) @
         [CHR 0x0A])"

definition detailStyle :: "int \<Rightarrow> int \<Rightarrow> style" where
  "detailStyle w h =
     [Border, BorderForeground normalColor, Padding [0, 1], Width (w - 2), Height h,
      BorderTop False]"

text \<open>
  \<open>renderDetailView\<close>. The two early returns also print a line on standard output, which
  is not part of the returned frame.
\<close>

definition renderDetailView :: "'f lib \<Rightarrow> 'f ParsedLog \<Rightarrow> int \<Rightarrow> int \<Rightarrow> string" where
  "renderDetailView L log w h =
     (if w \<le> 0 then []
      else if h \<le> 0 then []
      else Render L (detailStyle w h)
             (Render L headerStyle ''Parsed Log Details'' @ [CHR 0x0A, CHR 0x0A] @
              concat (map (groupBlock L (Fields log)) groups)))"

subsection \<open>The raw panel (tui.go, renderRawLog)\<close>

definition rawStyle :: "int \<Rightarrow> int \<Rightarrow> style" where
  "rawStyle w h =
     [Border, BorderForeground normalColor, Padding [0, 1], Width (w - 2), Height h,
      BorderTop False, BorderBottom True]"

definition renderRawLog :: "'f lib \<Rightarrow> 'f ParsedLog \<Rightarrow> int \<Rightarrow> int \<Rightarrow> string" where
  "renderRawLog L log w h =
     Render L (rawStyle w h)
       (Render L headerStyle ''Raw Log'' @ [CHR 0x0A] @
        (case Unmarshal L (RawLog log) of
           Some parsedJSON \<Rightarrow>
             (case MarshalIndent L parsedJSON [] ''  '' of
                Some prettyJSON \<Rightarrow> Render L jsonStringStyle prettyJSON
              | None \<Rightarrow> Render L jsonStringStyle (RawLog log))
         | None \<Rightarrow> Render L jsonStringStyle (RawLog log)))"

subsection \<open>The list panel (tui.go, truncate, formatLogPreview, renderLogList)\<close>

definition truncate :: "'f lib \<Rightarrow> string \<Rightarrow> int \<Rightarrow> string" where
  "truncate L input maxLen =
     (if maxLen \<le> 0 then []
      else (let inputRunes = ToRunes L input
            in if int (length inputRunes) \<le> maxLen then input
               else if maxLen \<le> 3 then replicate (nat maxLen) (CHR ''.'')
               else OfRunes L (take (nat (maxLen - 3)) inputRunes) @ ''...''))"

definition formatLogPreview :: "'f lib \<Rightarrow> 'f ParsedLog \<Rightarrow> int \<Rightarrow> string" where
  "formatLogPreview L log maxWidth =
     (let parts1 =
            (case map_of (Fields log) ''start_time'' of
               Some (JString startTime) \<Rightarrow>
                 (if startTime \<noteq> []
                  then (case ClockOfRFC3339 L startTime of Some t \<Rightarrow> [t] | None \<Rightarrow> [])
                  else [])
             | _ \<Rightarrow> []);
          parts2 =
            parts1 @
            (case map_of (Fields log) ''response_code'' of
               Some (JNumber code) \<Rightarrow> [''['' @ Itoa (FloatToInt L code) @ '']'']
             | _ \<Rightarrow> []);
          parts3 =
            parts2 @
            (case map_of (Fields log) ''response_flags'' of
               Some (JString flags) \<Rightarrow> (if flags \<noteq> [] then [flags] else [])
             | _ \<Rightarrow> []);
          parts4 =
            parts3 @
            (case map_of (Fields log) ''method'' of
               Some (JString method) \<Rightarrow>
                 (if method \<noteq> [] \<and> method \<noteq> ''null'' then [method] else [])
             | _ \<Rightarrow> []);
          parts5 =
            parts4 @
            (case map_of (Fields log) ''path'' of
               Some (JString path) \<Rightarrow> (if path \<noteq> [] \<and> path \<noteq> ''null'' then [path] else [])
             | _ \<Rightarrow> []);
          preview = Join parts5 '' '';
          preview' = (if length preview = 0 then truncate L (RawLog log) maxWidth else preview)
      in truncate L preview' maxWidth)"

text \<open>The verb \<open>%3d\<close>: spaces on the left up to three characters.\<close>

definition padLeft3 :: "string \<Rightarrow> string" where
  "padLeft3 s = replicate (3 - length s) (CHR '' '') @ s"

definition listStyle :: "int \<Rightarrow> int \<Rightarrow> style" where
  "listStyle w h =
     [Border, BorderForeground normalColor, Width (w - 2), Height h, BorderBottom True]"

text \<open>
  The body of the loop of \<open>renderLogList\<close> for the index \<open>i\<close>, which the loop keeps
  inside the list. The cursor is the three bytes of the triangle and a space.
\<close>

definition listRow :: "'f lib \<Rightarrow> 'f ParsedLog list \<Rightarrow> int \<Rightarrow> int \<Rightarrow> int \<Rightarrow> string" where
  "listRow L ls selectedIdx w i =
     (let log = ls ! nat i;
          cursor = (if i = selectedIdx then [CHR 0xE2, CHR 0x96, CHR 0xB6, CHR '' ''] else ''  '');
          lineNum = cursor @ padLeft3 (Itoa (LineNumber log)) @ '':'';
          preview = formatLogPreview L log (w - int (length lineNum) - 6);
          line = lineNum @ '' '' @ preview;
          style0 = (if i = selectedIdx then selectedLogStyle else logStyle);
          style1 =
            (case map_of (Fields log) ''response_flags'' of
               Some (JString flags) \<Rightarrow>
                 (if Contains flags ''UF'' \<or> Contains flags ''URX''
                  then style0 @ [Foreground errorColor]
                  else if Contains flags ''UH'' \<or> Contains flags ''UO''
                  then style0 @ [Foreground warnColor]
                  else style0)
             | _ \<Rightarrow> style0)
      in Render L style1 line @ [CHR 0x0A])"

definition renderLogList :: "'f lib \<Rightarrow> 'f ParsedLog list \<Rightarrow> int \<Rightarrow> int \<Rightarrow> int \<Rightarrow> string" where
  "renderLogList L ls selectedIdx w h =
     (if length ls = 0 then []
      else (let title =
                  Render L headerStyle
                    (''Log List (use '' @ [CHR 0xE2, CHR 0x86, CHR 0x91, CHR 0xE2, CHR 0x86, CHR 0x93]
                     @ '' to navigate)'') @ [CHR 0x0A];
                availableLines = max 0 (h - 4);
                startIdx0 = max 0 (selectedIdx - availableLines div 2);
                endIdx0 = startIdx0 + availableLines;
                endIdx = (if endIdx0 > int (length ls) then int (length ls) else endIdx0);
                startIdx =
                  (if endIdx0 > int (length ls) then max 0 (endIdx - availableLines)
                   else startIdx0)
            in Render L (listStyle w h)
                 (title @
                  concat (map (listRow L ls selectedIdx w)
                            [startIdx .. min endIdx (int (length ls)) - 1]))))"

subsection \<open>The frame (tui.go, View)\<close>

text \<open>Indexing a slice outside its range panics; the panic is a value of the model.\<close>

datatype error = IndexOutOfRange

text \<open>
  The heights that \<open>View\<close> computes: the list, the raw log and the details. The height of
  the details is computed from the height of the list before its minimum is applied.
\<close>

definition viewHeights :: "int \<Rightarrow> int \<times> int \<times> int" where
  "viewHeights h =
     (let mainHeight = max 0 (h - 4);
          listHeight = (mainHeight * 20) div 100;
          rawLogHeight = 3;
          detailHeight = mainHeight - listHeight - rawLogHeight
      in (max 5 listHeight, rawLogHeight, max 10 detailHeight))"

definition viewHeader :: "'f lib \<Rightarrow> 'f Model \<Rightarrow> string" where
  \<open>viewHeader L m =
     Render L headerStyle
       (''Log '' @ Itoa (selectedLogIndex m + 1) @ '' of '' @ Itoa (int (length (filteredLogs m))) @
        '' | Press 's' to search, '/' to jump, 'q' to quit'')\<close>

definition View :: "'f lib \<Rightarrow> 'f Model \<Rightarrow> error + string" where
  \<open>View L m =
     (if length (filteredLogs m) = 0
      then Inr (Render L errorStyle ''No valid logs found. Press 'q' to quit.'')
      else (let header = viewHeader L m;
                (listHeight, rawLogHeight, detailHeight) = viewHeights (height m);
                logList = renderLogList L (filteredLogs m) (selectedLogIndex m) (width m) listHeight
            in if selectedLogIndex m < 0 \<or> selectedLogIndex m \<ge> int (length (filteredLogs m))
               then Inl IndexOutOfRange
               else (let rawLog =
                           renderRawLog L (filteredLogs m ! nat (selectedLogIndex m))
                             (width m) (height m);
                         detailView =
                           renderDetailView L (filteredLogs m ! nat (selectedLogIndex m))
                             (width m) (height m);
                         mainContent = JoinVertical L [logList, rawLog, detailView]
                     in if searchMode m \<or> jumpMode m
                        then (let mode = (if jumpMode m then ''Jump to line'' else ''Search'');
                                  overlay = Render L searchStyle (mode @ '': '' @ searchQuery m)
                              in Inr (JoinVertical L [header, mainContent, overlay]))
                        else Inr (JoinVertical L [header, mainContent]))))\<close>

subsection \<open>An instance of the libraries on ASCII text\<close>

text \<open>
  For evaluating the model on concrete inputs: rendering without styling or layout,
  lowering and trimming of ASCII bytes, numbers that are integers, and a JSON codec that
  knows one document.
\<close>

definition lowerByte :: "char \<Rightarrow> char" where
  "lowerByte c =
     (case map_of (zip ''ABCDEFGHIJKLMNOPQRSTUVWXYZ'' ''abcdefghijklmnopqrstuvwxyz'') c of
        Some l \<Rightarrow> l
      | None \<Rightarrow> c)"

definition isSpaceByte :: "char \<Rightarrow> bool" where
  "isSpaceByte c =
     (c \<in> set [CHR 0x09, CHR 0x0A, CHR 0x0B, CHR 0x0C, CHR 0x0D, CHR '' ''])"

definition sampleJSON :: string where
  \<open>sampleJSON = ''{"level":"error","message":"Connection failed"}''\<close>

definition sampleValue :: "int jvalue" where
  "sampleValue =
     JObject [(''level'', JString ''error''), (''message'', JString ''Connection failed'')]"

definition samplePretty :: string where
  \<open>samplePretty =
     ''{'' @ [CHR 0x0A] @
     ''  "level": "error",'' @ [CHR 0x0A] @
     ''  "message": "Connection failed"'' @ [CHR 0x0A] @
     ''}''\<close>

definition asciiLib :: "int lib" where
  "asciiLib =
     \<lparr>Render = (\<lambda>st s. s),
      JoinVertical = (\<lambda>blocks. Join blocks [CHR 0x0A]),
      ToLower = map lowerByte,
      TrimSpace = (\<lambda>s. rev (dropWhile isSpaceByte (rev (dropWhile isSpaceByte s)))),
      FormatFloat = Itoa,
      FloatToInt = (\<lambda>x. x),
      Unmarshal = (\<lambda>s. if s = sampleJSON then Some sampleValue else None),
      MarshalIndent =
        (\<lambda>v prefix indent.
           if v = sampleValue \<and> prefix = [] \<and> indent = ''  '' then Some samplePretty else None),
      ClockOfRFC3339 = (\<lambda>s. None),
      ToRunes = map of_char,
      OfRunes = map char_of\<rparr>"

text \<open>Three records as the parser produces them, and record lists made of them.\<close>

definition logInfo :: "int ParsedLog" where
  \<open>logInfo =
     \<lparr>RawLog = ''{"level":"info","message":"Server started"}'',
      Fields = [(''level'', JString ''info''), (''message'', JString ''Server started'')],
      LineNumber = 1\<rparr>\<close>

definition logError :: "int ParsedLog" where
  "logError =
     \<lparr>RawLog = sampleJSON,
      Fields = [(''level'', JString ''error''), (''message'', JString ''Connection failed'')],
      LineNumber = 2\<rparr>"

definition logWarn :: "int ParsedLog" where
  \<open>logWarn =
     \<lparr>RawLog = ''{"level":"warn","message":"Connection slow"}'',
      Fields = [(''level'', JString ''warn''), (''message'', JString ''Connection slow'')],
      LineNumber = 3\<rparr>\<close>

definition twoLogs :: "int ParsedLog list" where
  "twoLogs = [logInfo, logError]"

definition threeLogs :: "int ParsedLog list" where
  "threeLogs = [logInfo, logError, logWarn]"

text \<open>
  The records of an input whose second line is not JSON: \<open>parseRawLogs\<close> skips that line
  and numbers the others by their position in the input.
\<close>

definition gapLogs :: "int ParsedLog list" where
  "gapLogs = [logInfo, logWarn]"

text \<open>The state in jump mode with the given input, nothing filtered.\<close>

definition jumpModel :: "int ParsedLog list \<Rightarrow> string \<Rightarrow> int Model" where
  "jumpModel parsedLogs input = (initModel parsedLogs)\<lparr>jumpMode := True, searchQuery := input\<rparr>"

text \<open>
  The keys of a session on \<open>threeLogs\<close>: search for \<open>on\<close>, then jump to line 3.
\<close>

definition searchThenJump :: "Msg list" where
  "searchThenJump =
     [typed ''s'', typed ''o'', typed ''n'', key KeyEnter,
      typed ''/'', typed ''3'', key KeyEnter]"

text \<open>The state of the tests of \<open>View\<close>: two records on a terminal of 100 by 40.\<close>

definition sizedModel :: "int Model" where
  "sizedModel = (initModel twoLogs)\<lparr>width := 100, height := 40\<rparr>"


text \<open>Fields whose values are a dash, the word null and an ordinary string.\<close>

definition dashFields :: "(string \<times> int jvalue) list" where
  "dashFields =
     [(''method'', JString ''-''), (''path'', JString ''null''),
      (''protocol'', JString ''HTTP/1.1'')]"

subsection \<open>The invariant of the selection\<close>

definition indexInRange :: "'f Model \<Rightarrow> bool" where
  "indexInRange m =
     (filteredLogs m \<noteq> [] \<longrightarrow>
        0 \<le> selectedLogIndex m \<and> selectedLogIndex m < int (length (filteredLogs m)))"

section \<open>Properties\<close>

subsection \<open>Strings\<close>

lemma HasPrefix_prefix: "HasPrefix s p = prefix p s"
  by (induction s p rule: HasPrefix.induct) auto

lemma Contains_sublist: "Contains s sub = sublist sub s"
  by (induction s) (auto simp: HasPrefix_prefix sublist_Cons_right)

subsection \<open>The filter\<close>

lemma fieldsContain_iff:
  "fieldsContain L fs lq =
     (\<exists>kv \<in> set fs. sublist lq (ToLower L (fst kv)) \<or>
                     sublist lq (ToLower L (Sprint (FormatFloat L) (snd kv))))"
  by (induction fs) (auto simp: Contains_sublist)

lemma filterLoop_filter:
  "filterLoop L rs (ToLower L q) acc = acc @ filter (recordMatches L q) rs"
  by (induction rs arbitrary: acc)
     (auto simp: recordMatches_def containsFold_def Contains_sublist fieldsContain_iff)

text \<open>
  C3. The empty query returns the records as they are; the result of any query is a
  subsequence of the records, in their order; and for a query that is not empty the
  result holds exactly the records that match: those whose raw text, or a field key, or
  a field value in its string form, contains the query without regard to case.
\<close>

theorem filterLogs_spec:
  "filterLogs L R [] = R \<and>
   subseq (filterLogs L R q) R \<and>
   (q \<noteq> [] \<longrightarrow> filterLogs L R q = filter (recordMatches L q) R) \<and>
   (q \<noteq> [] \<longrightarrow> (\<forall>r. r \<in> set (filterLogs L R q) \<longleftrightarrow> r \<in> set R \<and> recordMatches L q r))"
  by (auto simp: filterLogs_def filterLoop_filter)

text \<open>
  C3 at a concrete input: the query \<open>ERROR\<close>, which is not empty, keeps the one record
  of three whose level is \<open>error\<close>.
\<close>





theorem filterLogs_spec_witness:
  "''ERROR'' \<noteq> [] \<and>
   filterLogs asciiLib threeLogs ''ERROR'' = filter (recordMatches asciiLib ''ERROR'') threeLogs \<and>
   filterLogs asciiLib threeLogs ''ERROR'' = [logError] \<and>
   logError \<in> set threeLogs \<and> recordMatches asciiLib ''ERROR'' logError"
proof -
  have ev: "filterLogs asciiLib threeLogs ''ERROR'' = [logError]"
    by (simp add: filterLogs_def asciiLib_def threeLogs_def logInfo_def logError_def logWarn_def
                  sampleJSON_def lowerByte_def)
  have ne: "''ERROR'' \<noteq> []"
    by simp
  note spec = filterLogs_spec [of asciiLib threeLogs "''ERROR''"]
  have a: "filterLogs asciiLib threeLogs ''ERROR'' = filter (recordMatches asciiLib ''ERROR'') threeLogs"
    using spec ne by blast
  have "logError \<in> set (filterLogs asciiLib threeLogs ''ERROR'')"
    unfolding ev by simp
  then have b: "logError \<in> set threeLogs \<and> recordMatches asciiLib ''ERROR'' logError"
    using spec ne by blast
  show ?thesis using ne a ev b by blast
qed
subsection \<open>Integers from text\<close>

lemma digitsValue_nonneg: "list_all isDigit ds \<Longrightarrow> 0 \<le> n \<Longrightarrow> 0 \<le> digitsValue ds n"
proof (induction ds arbitrary: n)
  case Nil
  then show ?case by simp
next
  case (Cons c cs)
  have "(48::int) \<le> of_char c"
    using Cons.prems(1) by (auto simp: isDigit_def)
  then show ?case using Cons by simp
qed

lemma Atoi_range:
  assumes "Atoi s = Some n"
  shows "- (2 ^ 63) \<le> n \<and> n < 2 ^ 63"
proof (cases s)
  case Nil
  with assms show ?thesis by (simp add: Atoi_def)
next
  case (Cons c cs)
  let ?ds = "if c = CHR ''-'' \<or> c = CHR ''+'' then cs else s"
  from assms Cons have d: "list_all isDigit ?ds"
    by (auto simp: Atoi_def Let_def split: if_splits)
  have nn: "0 \<le> digitsValue ?ds 0"
    using d by (intro digitsValue_nonneg) auto
  from assms Cons nn show ?thesis
    by (auto simp: Atoi_def Let_def simp del: digitsValue.simps split: if_splits)
qed

lemma wrap64_id: "- (2 ^ 63) \<le> x \<Longrightarrow> x < 2 ^ 63 \<Longrightarrow> wrap64 x = x"
  by (simp add: wrap64_def)

lemma wrap64_min: "wrap64 (- (2 ^ 63) - 1) = 2 ^ 63 - 1"
  by (simp add: wrap64_def)

subsection \<open>The transition function, case by case\<close>

lemma jumpCommit_frame:
  "logs (jumpCommit m) = logs m" "filteredLogs (jumpCommit m) = filteredLogs m"
  by (simp_all add: jumpCommit_def Let_def split: option.splits)

lemma searchCommit_frame: "logs (searchCommit L m) = logs m"
  by (simp add: searchCommit_def Let_def)

lemma editQuery_frame:
  "logs (editQuery m k) = logs m" "filteredLogs (editQuery m k) = filteredLogs m"
  "selectedLogIndex (editQuery m k) = selectedLogIndex m"
  by (simp_all add: editQuery_def)

lemma step_logs: "logs (step L m msg) = logs m"
  by (simp add: step_def Update_def Let_def jumpCommit_frame searchCommit_frame editQuery_frame
           split: Msg.splits)

lemma step_filteredLogs:
  "\<not> (isEnter msg \<and> searchMode m \<and> \<not> jumpMode m) \<Longrightarrow>
   filteredLogs (step L m msg) = filteredLogs m"
  by (auto simp: step_def Update_def Let_def jumpCommit_frame editQuery_frame isEnter_def
           split: Msg.splits)

lemma step_down:
  "isDown d \<Longrightarrow> step L m d =
     (if selectedLogIndex m < int (length (filteredLogs m)) - 1
      then m\<lparr>selectedLogIndex := selectedLogIndex m + 1\<rparr> else m)"
  by (auto simp: step_def Update_def Let_def isDown_def split: Msg.splits)

lemma step_up:
  "isUp u \<Longrightarrow> step L m u =
     (if selectedLogIndex m > 0 then m\<lparr>selectedLogIndex := selectedLogIndex m - 1\<rparr> else m)"
  by (auto simp: step_def Update_def Let_def isUp_def split: Msg.splits)

lemma Update_enter_jump:
  "isEnter msg \<Longrightarrow> jumpMode m \<Longrightarrow> Update L m msg = (jumpCommit m, None)"
  by (auto simp: Update_def Let_def isEnter_def split: Msg.splits)

lemma jumpCommit_spec:
  assumes len: "int (length (logs m)) < 2 ^ 63"
  shows "searchQuery (jumpCommit m) = [] \<and> \<not> jumpMode (jumpCommit m) \<and>
     searchMode (jumpCommit m) = searchMode m \<and>
     (\<forall>n. Atoi (searchQuery m) = Some n \<and> 1 \<le> n \<and> n \<le> int (length (logs m))
         \<longrightarrow> selectedLogIndex (jumpCommit m) = n - 1) \<and>
     (Atoi (searchQuery m) = None \<or>
      (\<exists>n. Atoi (searchQuery m) = Some n \<and> (n < 1 \<or> int (length (logs m)) < n))
         \<longrightarrow> selectedLogIndex (jumpCommit m) = selectedLogIndex m)"
proof -
  have a: "searchQuery (jumpCommit m) = []" "\<not> jumpMode (jumpCommit m)"
    "searchMode (jumpCommit m) = searchMode m"
    by (auto simp: jumpCommit_def Let_def split: option.splits)
  have b: "selectedLogIndex (jumpCommit m) = n - 1"
    if "Atoi (searchQuery m) = Some n" "1 \<le> n" "n \<le> int (length (logs m))" for n
  proof -
    have "wrap64 (n - 1) = n - 1"
      using Atoi_range[OF that(1)] that(2) by (intro wrap64_id) auto
    then show ?thesis using that by (simp add: jumpCommit_def Let_def)
  qed
  have c: "selectedLogIndex (jumpCommit m) = selectedLogIndex m"
    if "Atoi (searchQuery m) = None"
    using that by (simp add: jumpCommit_def)
  have d: "selectedLogIndex (jumpCommit m) = selectedLogIndex m"
    if "Atoi (searchQuery m) = Some n" "n < 1 \<or> int (length (logs m)) < n" for n
  proof (cases "n = - (2 ^ 63)")
    case True
    then have "wrap64 (n - 1) = 2 ^ 63 - 1"
      using wrap64_min by simp
    then show ?thesis using that len by (simp add: jumpCommit_def Let_def)
  next
    case False
    then have "wrap64 (n - 1) = n - 1"
      using Atoi_range[OF that(1)] by (intro wrap64_id) auto
    then show ?thesis using that by (auto simp add: jumpCommit_def Let_def)
  qed
  show ?thesis using a b c d by blast
qed

lemma run_no_enter:
  "\<forall>msg \<in> set msgs. \<not> isEnter msg \<Longrightarrow>
   filteredLogs (run L m msgs) = filteredLogs m \<and> logs (run L m msgs) = logs m"
  unfolding run_def
  by (induction msgs arbitrary: m) (simp_all add: step_logs step_filteredLogs)

lemmas eval_defs =
  run_def step_def Update_def typed_def key_def KeyString_def initModel_def editQuery_def
  searchCommit_def jumpCommit_def filterLogs_def asciiLib_def twoLogs_def threeLogs_def
  gapLogs_def logInfo_def logError_def logWarn_def sampleJSON_def lowerByte_def Atoi_def
  isDigit_def wrap64_def Let_def jumpModel_def modeOf_def isEnter_def isUp_def isDown_def
  searchThenJump_def indexInRange_def

subsection \<open>Jump to line\<close>

text \<open>
  C1, as the program has it. On the enter key in jump mode the input buffer is cleared,
  the mode is Normal again and no command is returned. When the buffer parses as an
  integer \<open>n\<close> with \<open>1 \<le> n \<le> len(allRecords)\<close> that is also at most
  \<open>len(visibleRecords)\<close>, the selection becomes \<open>n - 1\<close>, the n-th visible record by
  position; no record is looked up by its line number. When the buffer does not parse,
  or \<open>n\<close> is outside \<open>1 .. len(allRecords)\<close>, the selection is unchanged. When nothing is
  filtered and the records are numbered \<open>1, 2, ...\<close> without gaps, the selected record
  is the one whose line number is \<open>n\<close>.
\<close>




theorem jump_enter_selects_by_position:
  assumes "jumpMode m" and "\<not> searchMode m" and "isEnter msg"
    and "int (length (logs m)) < 2 ^ 63"
  shows "searchQuery (step L m msg) = [] \<and> modeOf (step L m msg) = Normal \<and>
     snd (Update L m msg) = None \<and>
     (\<forall>n. Atoi (searchQuery m) = Some n \<and> 1 \<le> n \<and> n \<le> int (length (logs m)) \<and>
          n \<le> int (length (filteredLogs m))
        \<longrightarrow> selectedLogIndex (step L m msg) = n - 1 \<and>
            (filteredLogs m = logs m \<and>
             (\<forall>i < length (logs m). LineNumber (logs m ! i) = int i + 1)
             \<longrightarrow> LineNumber (filteredLogs (step L m msg) ! nat (selectedLogIndex (step L m msg))) = n)) \<and>
     (Atoi (searchQuery m) = None \<or>
      (\<exists>n. Atoi (searchQuery m) = Some n \<and> (n < 1 \<or> int (length (logs m)) < n))
        \<longrightarrow> selectedLogIndex (step L m msg) = selectedLogIndex m)"
proof -
  have st: "step L m msg = jumpCommit m" and cmd: "snd (Update L m msg) = None"
    using assms(1,3) by (simp_all add: step_def Update_enter_jump)
  note js = jumpCommit_spec[OF assms(4)]
  have q: "searchQuery (jumpCommit m) = []"
    using js by blast
  have mode: "modeOf (jumpCommit m) = Normal"
    using js assms(2) by (simp add: modeOf_def)
  have sel: "selectedLogIndex (jumpCommit m) = n - 1"
    if "Atoi (searchQuery m) = Some n" "1 \<le> n" "n \<le> int (length (logs m))" for n
    using js that by blast
  have ln: "LineNumber (filteredLogs (jumpCommit m) ! nat (selectedLogIndex (jumpCommit m))) = n"
    if "Atoi (searchQuery m) = Some n" "1 \<le> n" "n \<le> int (length (logs m))"
      "filteredLogs m = logs m" "\<forall>i < length (logs m). LineNumber (logs m ! i) = int i + 1"
    for n
  proof -
    have "nat (n - 1) < length (logs m)"
      using that(2,3) by linarith
    then have "LineNumber (logs m ! nat (n - 1)) = int (nat (n - 1)) + 1"
      using that(5) by blast
    then show ?thesis
      using that(2,4) sel[OF that(1-3)] by (simp add: jumpCommit_frame)
  qed
  have keep: "selectedLogIndex (jumpCommit m) = selectedLogIndex m"
    if "Atoi (searchQuery m) = None \<or>
      (\<exists>n. Atoi (searchQuery m) = Some n \<and> (n < 1 \<or> int (length (logs m)) < n))"
    using js that by blast
  show ?thesis
    unfolding st
  proof (intro conjI allI impI)
    show "searchQuery (jumpCommit m) = []" by (rule q)
    show "modeOf (jumpCommit m) = Normal" by (rule mode)
    show "snd (Update L m msg) = None" by (rule cmd)
  next
    fix n
    assume h: "Atoi (searchQuery m) = Some n \<and> 1 \<le> n \<and> n \<le> int (length (logs m)) \<and>
          n \<le> int (length (filteredLogs m))"
    then show "selectedLogIndex (jumpCommit m) = n - 1" using sel by blast
    assume "filteredLogs m = logs m \<and>
             (\<forall>i < length (logs m). LineNumber (logs m ! i) = int i + 1)"
    then show "LineNumber (filteredLogs (jumpCommit m) ! nat (selectedLogIndex (jumpCommit m))) = n"
      using h ln by blast
  next
    assume "Atoi (searchQuery m) = None \<or>
      (\<exists>n. Atoi (searchQuery m) = Some n \<and> (n < 1 \<or> int (length (logs m)) < n))"
    then show "selectedLogIndex (jumpCommit m) = selectedLogIndex m" by (rule keep)
  qed
qed

text \<open>
  The scenario of C1: on the two records numbered 1 and 2, nothing filtered, the input
  \<open>2\<close> selects index 1, the record whose line number is 2.
\<close>

theorem jump_enter_selects_by_position_witness:
  "jumpMode (jumpModel twoLogs ''2'') \<and> \<not> searchMode (jumpModel twoLogs ''2'') \<and>
   isEnter (key KeyEnter) \<and> int (length (logs (jumpModel twoLogs ''2''))) < 2 ^ 63 \<and>
   Atoi (searchQuery (jumpModel twoLogs ''2'')) = Some 2 \<and>
   selectedLogIndex (step asciiLib (jumpModel twoLogs ''2'') (key KeyEnter)) = 1 \<and>
   LineNumber (filteredLogs (step asciiLib (jumpModel twoLogs ''2'') (key KeyEnter)) ! 1) = 2 \<and>
   modeOf (step asciiLib (jumpModel twoLogs ''2'') (key KeyEnter)) = Normal \<and>
   searchQuery (step asciiLib (jumpModel twoLogs ''2'') (key KeyEnter)) = []"
proof -
  let ?m = "jumpModel twoLogs ''2''"
  have h1: "jumpMode ?m" and h2: "\<not> searchMode ?m"
    by (simp_all add: jumpModel_def initModel_def)
  have h3: "isEnter (key KeyEnter)"
    by (simp add: isEnter_def key_def KeyString_def)
  have h4: "int (length (logs ?m)) < 2 ^ 63"
    by (simp add: jumpModel_def initModel_def twoLogs_def)
  have at: "Atoi (searchQuery ?m) = Some 2"
    by (simp add: jumpModel_def initModel_def Atoi_def isDigit_def Let_def)
  have rng: "(1::int) \<le> 2 \<and> 2 \<le> int (length (logs ?m)) \<and> 2 \<le> int (length (filteredLogs ?m))"
    by (simp add: jumpModel_def initModel_def twoLogs_def)
  have num: "filteredLogs ?m = logs ?m \<and>
             (\<forall>i < length (logs ?m). LineNumber (logs ?m ! i) = int i + 1)"
    by (simp add: jumpModel_def initModel_def twoLogs_def logInfo_def logError_def
                  less_Suc_eq numeral_2_eq_2)
  note t = jump_enter_selects_by_position [OF h1 h2 h3 h4, of asciiLib]
  have sel: "selectedLogIndex (step asciiLib ?m (key KeyEnter)) = 2 - 1"
    using t at rng by blast
  have "LineNumber (filteredLogs (step asciiLib ?m (key KeyEnter)) !
          nat (selectedLogIndex (step asciiLib ?m (key KeyEnter)))) = 2"
    using t at rng num by blast
  then have ln: "LineNumber (filteredLogs (step asciiLib ?m (key KeyEnter)) ! 1) = 2"
    using sel by simp
  show ?thesis
    using h1 h2 h3 h4 at sel ln t by simp
qed

text \<open>
  C1 as it is written fails: among the visible records numbered 1 and 3 none has the line
  number 2, so the selection should be left where it is; the program moves it to index 1,
  the record of line 3.
\<close>

theorem jump_by_line_number_counterexample:
  "modeOf (jumpModel gapLogs ''2'') = JumpingToLine \<and>
   Atoi (searchQuery (jumpModel gapLogs ''2'')) = Some 2 \<and>
   2 \<le> int (length (logs (jumpModel gapLogs ''2''))) \<and>
   2 \<notin> LineNumber ` set (filteredLogs (jumpModel gapLogs ''2'')) \<and>
   selectedLogIndex (jumpModel gapLogs ''2'') = 0 \<and>
   selectedLogIndex (step asciiLib (jumpModel gapLogs ''2'') (key KeyEnter)) = 1 \<and>
   LineNumber (filteredLogs (step asciiLib (jumpModel gapLogs ''2'') (key KeyEnter)) ! 1) = 3"
  by (simp add: eval_defs)

subsection \<open>The selection stays in range, except after a jump on a filtered list\<close>

lemma step_indexInRange:
  "indexInRange m \<Longrightarrow> \<not> (isEnter msg \<and> jumpMode m) \<Longrightarrow> indexInRange (step L m msg)"
  by (auto simp: indexInRange_def step_def Update_def Let_def searchCommit_def editQuery_def
                 isEnter_def
           split: Msg.splits option.splits)

lemma jumpCommit_indexInRange:
  "indexInRange m \<Longrightarrow> length (logs m) \<le> length (filteredLogs m) \<Longrightarrow>
   indexInRange (jumpCommit m)"
  by (auto simp: indexInRange_def jumpCommit_def Let_def split: option.splits)

lemma step_flags_exclusive:
  "\<not> (searchMode m \<and> jumpMode m) \<Longrightarrow>
   \<not> (searchMode (step L m msg) \<and> jumpMode (step L m msg))"
  by (auto simp: step_def Update_def Let_def jumpCommit_def searchCommit_def editQuery_def
           split: Msg.splits option.splits if_splits)

lemma initModel_indexInRange: "indexInRange (initModel parsedLogs)"
  by (simp add: indexInRange_def initModel_def)

text \<open>
  C2 fails on the program. From the initial state on three records, the search for \<open>on\<close>
  leaves two visible records; the jump to line 3 then sets the selection to index 2,
  which is not an index of the two visible records, and \<open>View\<close> panics when it reads the
  selected record.
\<close>

theorem jump_after_search_out_of_range:
  "filteredLogs (run asciiLib (initModel threeLogs) searchThenJump) = [logError, logWarn] \<and>
   selectedLogIndex (run asciiLib (initModel threeLogs) searchThenJump) = 2 \<and>
   \<not> selectedLogIndex (run asciiLib (initModel threeLogs) searchThenJump)
       < int (length (filteredLogs (run asciiLib (initModel threeLogs) searchThenJump))) \<and>
   View asciiLib (run asciiLib (initModel threeLogs) searchThenJump) = Inl IndexOutOfRange"
proof -
  have f: "filteredLogs (run asciiLib (initModel threeLogs) searchThenJump) = [logError, logWarn]"
    and s: "selectedLogIndex (run asciiLib (initModel threeLogs) searchThenJump) = 2"
    by (simp_all add: eval_defs)
  have r: "\<not> selectedLogIndex (run asciiLib (initModel threeLogs) searchThenJump)
       < int (length (filteredLogs (run asciiLib (initModel threeLogs) searchThenJump)))"
    unfolding f s by simp
  have v: "View asciiLib (run asciiLib (initModel threeLogs) searchThenJump) = Inl IndexOutOfRange"
    unfolding View_def f s by (simp add: Let_def split: prod.splits)
  show ?thesis using f s r v by blast
qed

subsection \<open>Moving the selection\<close>

text \<open>
  C7, as the program has it. In Normal mode, with a selection inside a list of visible
  records that is not empty: below the last index, down and then up brings the selection
  back; at the last index down leaves it there, and the up that follows moves it one up
  (to \<open>max 0 (i - 1)\<close>); at index 0 up leaves it at 0.
\<close>

theorem down_then_up:
  assumes "modeOf m = Normal" and "filteredLogs m \<noteq> []"
    and "0 \<le> selectedLogIndex m" and "selectedLogIndex m < int (length (filteredLogs m))"
    and "isDown d" and "isUp u"
  shows "(selectedLogIndex m < int (length (filteredLogs m)) - 1 \<longrightarrow>
            selectedLogIndex (step L (step L m d) u) = selectedLogIndex m) \<and>
         (selectedLogIndex m = int (length (filteredLogs m)) - 1 \<longrightarrow>
            selectedLogIndex (step L m d) = selectedLogIndex m \<and>
            selectedLogIndex (step L (step L m d) u) = max 0 (selectedLogIndex m - 1)) \<and>
         (selectedLogIndex m = 0 \<longrightarrow> selectedLogIndex (step L m u) = 0)"
  using assms by (auto simp: step_down step_up)

theorem down_then_up_witness:
  "modeOf (initModel twoLogs) = Normal \<and> filteredLogs (initModel twoLogs) \<noteq> [] \<and>
   0 \<le> selectedLogIndex (initModel twoLogs) \<and>
   selectedLogIndex (initModel twoLogs) < int (length (filteredLogs (initModel twoLogs))) \<and>
   isDown (key KeyDown) \<and> isUp (typed ''k'') \<and>
   selectedLogIndex (initModel twoLogs) < int (length (filteredLogs (initModel twoLogs))) - 1 \<and>
   selectedLogIndex (step asciiLib (initModel twoLogs) (key KeyDown)) = 1 \<and>
   selectedLogIndex (step asciiLib (step asciiLib (initModel twoLogs) (key KeyDown)) (typed ''k''))
     = selectedLogIndex (initModel twoLogs)"
  using down_then_up [of "initModel twoLogs" "key KeyDown" "typed ''k''" asciiLib]
  by (simp add: eval_defs)

text \<open>
  C7 as it is written fails at the last index: with two records and the selection on the
  second, down leaves the selection at 1 and up moves it to 0.
\<close>

theorem down_then_up_counterexample:
  "modeOf (step asciiLib (initModel twoLogs) (key KeyDown)) = Normal \<and>
   filteredLogs (step asciiLib (initModel twoLogs) (key KeyDown)) \<noteq> [] \<and>
   selectedLogIndex (step asciiLib (initModel twoLogs) (key KeyDown)) = 1 \<and>
   selectedLogIndex
     (step asciiLib (step asciiLib (step asciiLib (initModel twoLogs) (key KeyDown)) (key KeyDown))
        (key KeyUp)) = 0"
  by (simp add: eval_defs)

subsection \<open>What a transition leaves alone\<close>

text \<open>
  C8. No message changes the list of all records. The list of visible records changes
  only on the enter key in Searching mode: every other message in every mode leaves it as
  it is, and so does every sequence of messages without an enter key, the keys \<open>s\<close> and
  then \<open>/\<close> among them.
\<close>

theorem Update_frame:
  "logs (step L m msg) = logs m \<and>
   (\<not> (isEnter msg \<and> modeOf m = Searching) \<longrightarrow> filteredLogs (step L m msg) = filteredLogs m) \<and>
   ((\<forall>x \<in> set msgs. \<not> isEnter x) \<longrightarrow>
      filteredLogs (run L m msgs) = filteredLogs m \<and> logs (run L m msgs) = logs m) \<and>
   filteredLogs (run L m [typed ''s'', typed ''/'']) = filteredLogs m \<and>
   modeOf (run L m [typed ''s'']) = Searching \<and>
   modeOf (run L m [typed ''s'', typed ''/'']) = JumpingToLine"
proof -
  have a: "\<not> (isEnter msg \<and> modeOf m = Searching) \<longrightarrow>
             filteredLogs (step L m msg) = filteredLogs m"
    using step_filteredLogs[of msg m L] by (auto simp: modeOf_def split: if_splits)
  have b: "(\<forall>x \<in> set msgs. \<not> isEnter x) \<longrightarrow>
      filteredLogs (run L m msgs) = filteredLogs m \<and> logs (run L m msgs) = logs m"
    using run_no_enter by blast
  have ne: "\<forall>x \<in> set [typed ''s'', typed ''/'']. \<not> isEnter x"
    by (simp add: isEnter_def typed_def KeyString_def)
  have c: "filteredLogs (run L m [typed ''s'', typed ''/'']) = filteredLogs m"
    using run_no_enter[OF ne] by blast
  have d: "modeOf (run L m [typed ''s'']) = Searching"
    "modeOf (run L m [typed ''s'', typed ''/'']) = JumpingToLine"
    by (simp_all add: run_def step_def Update_def typed_def KeyString_def modeOf_def)
  show ?thesis using step_logs a b c d by blast
qed

theorem Update_frame_witness:
  "\<not> (isEnter (typed ''s'') \<and> modeOf (initModel threeLogs) = Searching) \<and>
   filteredLogs (step asciiLib (initModel threeLogs) (typed ''s'')) = threeLogs \<and>
   \<not> list_ex isEnter [typed ''s'', typed ''x'', key KeyBackspace, typed ''/'', key KeyEsc] \<and>
   filteredLogs
     (run asciiLib (initModel threeLogs)
        [typed ''s'', typed ''x'', key KeyBackspace, typed ''/'', key KeyEsc]) = threeLogs"
proof -
  have ne: "\<not> list_ex isEnter [typed ''s'', typed ''x'', key KeyBackspace, typed ''/'', key KeyEsc]"
    by (simp add: isEnter_def typed_def key_def KeyString_def)
  then have ne': "\<forall>x \<in> set [typed ''s'', typed ''x'', key KeyBackspace, typed ''/'', key KeyEsc].
      \<not> isEnter x"
    unfolding list_ex_iff by blast
  have n1: "\<not> (isEnter (typed ''s'') \<and> modeOf (initModel threeLogs) = Searching)"
    by (simp add: isEnter_def typed_def KeyString_def)
  have i: "filteredLogs (initModel threeLogs) = threeLogs"
    by (simp add: initModel_def)
  note t = Update_frame [of asciiLib "initModel threeLogs" "typed ''s''"
      "[typed ''s'', typed ''x'', key KeyBackspace, typed ''/'', key KeyEsc]"]
  have a: "filteredLogs (step asciiLib (initModel threeLogs) (typed ''s'')) = threeLogs"
    using t n1 i by metis
  have b: "filteredLogs
     (run asciiLib (initModel threeLogs)
        [typed ''s'', typed ''x'', key KeyBackspace, typed ''/'', key KeyEsc]) = threeLogs"
    using t ne' i by metis
  show ?thesis using n1 a ne b by blast
qed

subsection \<open>The field annotator: response flags\<close>

lemma Split_nonempty: "Split s c \<noteq> []"
  by (induction s) (auto split: list.splits)

lemma Join_Cons_Cons: "Join ((x # p) # ps) sep = x # Join (p # ps) sep"
  by (cases ps) simp_all

lemma Join_Nil_Cons: "ps \<noteq> [] \<Longrightarrow> Join ([] # ps) sep = sep @ Join ps sep"
  by (cases ps) simp_all

lemma Join_Split: "Join (Split s c) [c] = s"
proof (induction s)
  case Nil
  show ?case by simp
next
  case (Cons x xs)
  show ?case
  proof (cases "x = c")
    case True
    then show ?thesis using Cons by (simp add: Join_Nil_Cons Split_nonempty)
  next
    case False
    obtain p ps where sp: "Split xs c = p # ps"
      using Split_nonempty[of xs c] by (cases "Split xs c") auto
    then show ?thesis using False Cons by (simp add: Join_Cons_Cons)
  qed
qed

lemma Split_no_sep: "p \<in> set (Split s c) \<Longrightarrow> c \<notin> set p"
  by (induction s arbitrary: p) (auto split: list.splits if_splits)

lemma explainLoop_map_filter:
  "explainLoop L parts acc = acc @ List.map_filter (\<lambda>p. map_of flagMap (TrimSpace L p)) parts"
  by (induction parts arbitrary: acc) (auto simp: map_filter_simps split: option.splits)

lemma Join_nonempty: "xs \<noteq> [] \<Longrightarrow> \<forall>x \<in> set xs. x \<noteq> [] \<Longrightarrow> Join xs sep \<noteq> []"
  by (induction xs sep rule: Join.induct) auto

lemma flagMap_phrases: "\<forall>kv \<in> set flagMap. snd kv \<noteq> []"
  by (simp add: flagMap_def)

lemma flagMap_phrase_nonempty:
  assumes "map_of flagMap k = Some e"
  shows "e \<noteq> []"
proof -
  have "(k, e) \<in> set flagMap"
    using assms by (rule map_of_SomeD)
  then show ?thesis
    using flagMap_phrases by fastforce
qed

lemma map_filter_Nil_iff: "List.map_filter f xs = [] \<longleftrightarrow> (\<forall>x \<in> set xs. f x = None)"
  by (induction xs) (auto simp: map_filter_simps split: option.splits)

lemma set_map_filter: "set (List.map_filter f xs) = {y. \<exists>x \<in> set xs. f x = Some y}"
  by (induction xs) (auto simp: map_filter_simps split: option.splits)

text \<open>
  C9. For every string of response flags: the parts are the pieces between the commas
  (joined with commas they give the string back, and none holds a comma); the result is
  the phrases of the parts that the flag map knows, after surrounding white space is
  trimmed, in their order and joined with a comma and a space; parts that the map does
  not know add nothing; the result is the empty string, which stands for no explanation,
  exactly when the map knows no part. The flag map has 19 entries with distinct codes.
  The function is total.
\<close>

theorem explainResponseFlags_spec:
  "Join (Split flags (CHR '','')) '','' = flags \<and>
   (\<forall>p \<in> set (Split flags (CHR '','')). CHR '','' \<notin> set p) \<and>
   explainResponseFlags L flags =
     Join (List.map_filter (\<lambda>p. map_of flagMap (TrimSpace L p)) (Split flags (CHR '','')))
       '', '' \<and>
   (explainResponseFlags L flags = [] \<longleftrightarrow>
      (\<forall>p \<in> set (Split flags (CHR '','')). map_of flagMap (TrimSpace L p) = None)) \<and>
   length flagMap = 19 \<and> distinct (map fst flagMap)"
proof -
  let ?f = "\<lambda>p. map_of flagMap (TrimSpace L p)"
  let ?parts = "Split flags (CHR '','')"
  have eq: "explainResponseFlags L flags = Join (List.map_filter ?f ?parts) '', ''"
    by (simp add: explainResponseFlags_def explainLoop_map_filter Let_def)
  have ne: "\<forall>x \<in> set (List.map_filter ?f ?parts). x \<noteq> []"
    by (auto simp: set_map_filter dest: flagMap_phrase_nonempty)
  have iff: "explainResponseFlags L flags = [] \<longleftrightarrow> (\<forall>p \<in> set ?parts. ?f p = None)"
  proof (cases "List.map_filter ?f ?parts = []")
    case True
    then have "explainResponseFlags L flags = []"
      using eq by simp
    moreover have "\<forall>p \<in> set ?parts. ?f p = None"
      using True by (simp add: map_filter_Nil_iff)
    ultimately show ?thesis by blast
  next
    case False
    then have "Join (List.map_filter ?f ?parts) '', '' \<noteq> []"
      using ne by (rule Join_nonempty)
    then have "explainResponseFlags L flags \<noteq> []"
      using eq by simp
    moreover have "\<not> (\<forall>p \<in> set ?parts. ?f p = None)"
      using False by (simp add: map_filter_Nil_iff)
    ultimately show ?thesis by blast
  qed
  have tab: "length flagMap = 19" "distinct (map fst flagMap)"
    by (simp_all add: flagMap_def)
  show ?thesis
    using Join_Split[of flags "CHR '',''"] Split_no_sep[of _ flags "CHR '',''"] eq iff tab
    by blast
qed

text \<open>
  C9 at concrete inputs: \<open>UF, URX,XX\<close> has three parts, two of them known, one after
  trimming; the dash that the proxy writes for no flags has no explanation.
\<close>

theorem explainResponseFlags_spec_witness:
  "Split ''UF, URX,XX'' (CHR '','') = [''UF'', '' URX'', ''XX''] \<and>
   list_all (\<lambda>p. CHR '','' \<notin> set p) (Split ''UF, URX,XX'' (CHR '','')) \<and>
   explainResponseFlags asciiLib ''UF, URX,XX''
     = ''upstream connection failure, upstream request timeout'' \<and>
   Split ''-'' (CHR '','') = [''-''] \<and>
   map (\<lambda>p. map_of flagMap (TrimSpace asciiLib p)) (Split ''-'' (CHR '','')) = [None] \<and>
   explainResponseFlags asciiLib ''-'' = []"
proof -
  have s1: "Split ''UF, URX,XX'' (CHR '','') = [''UF'', '' URX'', ''XX'']"
    and s2: "Split ''-'' (CHR '','') = [''-'']"
    by simp_all
  have tr: "TrimSpace asciiLib ''UF'' = ''UF''" "TrimSpace asciiLib '' URX'' = ''URX''"
    "TrimSpace asciiLib ''XX'' = ''XX''" "TrimSpace asciiLib ''-'' = ''-''"
    by (simp_all add: asciiLib_def isSpaceByte_def)
  have none: "\<forall>p \<in> set (Split ''-'' (CHR '','')). map_of flagMap (TrimSpace asciiLib p) = None"
    unfolding s2 by (simp add: tr flagMap_def)
  note t1 = explainResponseFlags_spec [of "''UF, URX,XX''" asciiLib]
  note t2 = explainResponseFlags_spec [of "''-''" asciiLib]
  have e1: "explainResponseFlags asciiLib ''UF, URX,XX''
     = ''upstream connection failure, upstream request timeout''"
    using t1 unfolding s1 by (simp add: map_filter_simps tr flagMap_def)
  have e2: "explainResponseFlags asciiLib ''-'' = []"
    using t2 none by blast
  have c: "list_all (\<lambda>p. CHR '','' \<notin> set p) (Split ''UF, URX,XX'' (CHR '',''))"
    using t1 unfolding list_all_iff by blast
  have n: "map (\<lambda>p. map_of flagMap (TrimSpace asciiLib p)) (Split ''-'' (CHR '','')) = [None]"
    unfolding s2 by (simp add: tr flagMap_def)
  show ?thesis using s1 s2 c e1 n e2 by blast
qed

subsection \<open>The detail panel: the placeholder dash\<close>

lemma formatFieldValue_dash: "formatFieldValue L field ''-'' = Render L jsonNullStyle ''-''"
  by (simp add: formatFieldValue_def)

text \<open>
  C10, as the program has it. For every field map and every field name, the value that
  the detail panel formats is the placeholder dash exactly when the key is absent, or its
  value is nil, or the string form of its value is empty, the word \<open>null\<close> or the dash
  itself. The placeholder is rendered in the null style without an annotation, whatever
  the field, so the line of such a field is the line of a missing field. Any other value
  is rendered as its string form.
\<close>

theorem getFieldSafely_placeholder:
  "(getFieldSafely L flds k = ''-'' \<longleftrightarrow>
      map_of flds k = None \<or> map_of flds k = Some JNull \<or>
      (\<exists>v. map_of flds k = Some v \<and> Sprint (FormatFloat L) v \<in> {[], ''null'', ''-''})) \<and>
   (getFieldSafely L flds k = ''-'' \<longrightarrow>
      formatFieldValue L field (getFieldSafely L flds k) = Render L jsonNullStyle ''-'' \<and>
      fieldLine L flds k = fieldLine L [] k \<and>
      fieldLine L flds k =
        Render L jsonKeyStyle (padRight30 k) @ '': '' @ Render L jsonNullStyle ''-'' @ [CHR 0x0A]) \<and>
   (getFieldSafely L flds k \<noteq> ''-'' \<longrightarrow>
      (\<exists>v. map_of flds k = Some v \<and> getFieldSafely L flds k = Sprint (FormatFloat L) v))"
proof -
  have a: "getFieldSafely L flds k = ''-'' \<longleftrightarrow>
      map_of flds k = None \<or> map_of flds k = Some JNull \<or>
      (\<exists>v. map_of flds k = Some v \<and> Sprint (FormatFloat L) v \<in> {[], ''null'', ''-''})"
    by (auto simp: getFieldSafely_def Let_def split: option.splits)
  have b: "fieldLine L flds k =
        Render L jsonKeyStyle (padRight30 k) @ '': '' @ Render L jsonNullStyle ''-'' @ [CHR 0x0A]"
    if "getFieldSafely L flds k = ''-''"
    using that by (simp add: fieldLine_def Let_def formatFieldValue_dash)
  have c: "fieldLine L [] k =
        Render L jsonKeyStyle (padRight30 k) @ '': '' @ Render L jsonNullStyle ''-'' @ [CHR 0x0A]"
    by (simp add: fieldLine_def Let_def formatFieldValue_dash getFieldSafely_def)
  have d: "\<exists>v. map_of flds k = Some v \<and> getFieldSafely L flds k = Sprint (FormatFloat L) v"
    if "getFieldSafely L flds k \<noteq> ''-''"
    using that by (auto simp: getFieldSafely_def Let_def split: option.splits if_splits)
  show ?thesis
    using a b c d formatFieldValue_dash[of L field] by metis
qed

text \<open>
  C10 at concrete inputs: a path whose value is the word \<open>null\<close> renders as a missing
  field does; a protocol \<open>HTTP/1.1\<close> renders as itself.
\<close>

theorem getFieldSafely_placeholder_witness:
  "map_of dashFields ''path'' = Some (JString ''null'') \<and>
   Sprint (FormatFloat asciiLib) (JString ''null'') \<in> {[], ''null'', ''-''} \<and>
   getFieldSafely asciiLib dashFields ''path'' = ''-'' \<and>
   fieldLine asciiLib dashFields ''path'' = fieldLine asciiLib [] ''path'' \<and>
   getFieldSafely asciiLib dashFields ''protocol'' \<noteq> ''-'' \<and>
   map_of dashFields ''protocol'' = Some (JString ''HTTP/1.1'') \<and>
   getFieldSafely asciiLib dashFields ''protocol'' = ''HTTP/1.1''"
proof -
  have m: "map_of dashFields ''path'' = Some (JString ''null'')"
    "map_of dashFields ''protocol'' = Some (JString ''HTTP/1.1'')"
    by (simp_all add: dashFields_def)
  have s: "Sprint (FormatFloat asciiLib) (JString ''null'') \<in> {[], ''null'', ''-''}"
    by simp
  note t1 = getFieldSafely_placeholder [of asciiLib dashFields "''path''" "''path''"]
  note t2 = getFieldSafely_placeholder [of asciiLib dashFields "''protocol''" "''protocol''"]
  have g1: "getFieldSafely asciiLib dashFields ''path'' = ''-''"
    using t1 m(1) s by blast
  have l1: "fieldLine asciiLib dashFields ''path'' = fieldLine asciiLib [] ''path''"
    using t1 g1 by blast
  have "\<not> (map_of dashFields ''protocol'' = None \<or> map_of dashFields ''protocol'' = Some JNull \<or>
      (\<exists>v. map_of dashFields ''protocol'' = Some v \<and>
           Sprint (FormatFloat asciiLib) v \<in> {[], ''null'', ''-''}))"
    by (simp add: m)
  then have g2: "getFieldSafely asciiLib dashFields ''protocol'' \<noteq> ''-''"
    using t2 by blast
  then have "\<exists>v. map_of dashFields ''protocol'' = Some v \<and>
      getFieldSafely asciiLib dashFields ''protocol'' = Sprint (FormatFloat asciiLib) v"
    using t2 by blast
  then have v2: "getFieldSafely asciiLib dashFields ''protocol'' = ''HTTP/1.1''"
    by (auto simp: m)
  show ?thesis using m s g1 l1 g2 v2 by blast
qed

text \<open>
  C10 as it is written fails: a field that is present, not nil, and whose string form is
  a dash (neither empty nor \<open>null\<close>) renders as the placeholder, as a missing field does.
\<close>

theorem dash_value_counterexample:
  "map_of dashFields ''method'' = Some (JString ''-'') \<and>
   JString ''-'' \<noteq> (JNull :: int jvalue) \<and>
   Sprint (FormatFloat asciiLib) (JString ''-'') \<noteq> [] \<and>
   Sprint (FormatFloat asciiLib) (JString ''-'') \<noteq> ''null'' \<and>
   getFieldSafely asciiLib dashFields ''method'' = ''-'' \<and>
   formatFieldValue asciiLib ''method'' (getFieldSafely asciiLib dashFields ''method'')
     = Render asciiLib jsonNullStyle ''-'' \<and>
   fieldLine asciiLib dashFields ''method'' = fieldLine asciiLib [] ''method''"
  by (simp add: dashFields_def getFieldSafely_def fieldLine_def formatFieldValue_def Let_def)

subsection \<open>The frame: the empty state and the heights of the panels\<close>

text \<open>
  C4. For every state whose list of visible records is empty, \<open>View\<close> returns without
  indexing the list: the frame is the one message, rendered in the error style, and is
  the same for all such states. The message is not empty, tells the user to press q to
  quit, and holds none of the titles of the three panels.
\<close>

theorem View_empty:
  "filteredLogs m = [] \<longrightarrow>
     View L m = Inr (Render L errorStyle ''No valid logs found. Press 'q' to quit.'') \<and>
     (\<forall>m'. filteredLogs m' = [] \<longrightarrow> View L m' = View L m) \<and>
     ''No valid logs found. Press 'q' to quit.'' \<noteq> [] \<and>
     sublist ''Press 'q' to quit'' ''No valid logs found. Press 'q' to quit.'' \<and>
     \<not> sublist ''Log List'' ''No valid logs found. Press 'q' to quit.'' \<and>
     \<not> sublist ''Raw Log'' ''No valid logs found. Press 'q' to quit.'' \<and>
     \<not> sublist ''Parsed Log Details'' ''No valid logs found. Press 'q' to quit.''"
  by (simp add: View_def Contains_sublist[symmetric])

text \<open>C4 at a concrete state, with a selection that is far outside the empty list.\<close>

theorem View_empty_witness:
  "filteredLogs (sizedModel\<lparr>filteredLogs := [], selectedLogIndex := 5\<rparr>) = [] \<and>
   View asciiLib (sizedModel\<lparr>filteredLogs := [], selectedLogIndex := 5\<rparr>)
     = Inr ''No valid logs found. Press 'q' to quit.''"
  using View_empty [of "sizedModel\<lparr>filteredLogs := [], selectedLogIndex := 5\<rparr>" asciiLib]
  by (simp add: asciiLib_def)

lemma sizedModel_fields:
  "filteredLogs sizedModel = [logInfo, logError]" "selectedLogIndex sizedModel = 0"
  "width sizedModel = 100" "height sizedModel = 40"
  "searchMode sizedModel = False" "jumpMode sizedModel = False"
  by (simp_all add: sizedModel_def initModel_def twoLogs_def)

text \<open>
  C5 fails on the program. On a terminal of height 40, \<open>View\<close> computes the heights 7, 3
  and 26 for the list, the raw log and the details, and gives the list panel its 7 lines;
  the raw panel and the detail panel are rendered with the height of the whole viewport,
  40, not with the heights computed for them.
\<close>

theorem View_panels_get_viewport_height:
  "viewHeights (height sizedModel) = (7, 3, 26) \<and>
   View L sizedModel =
     Inr (JoinVertical L
            [viewHeader L sizedModel,
             JoinVertical L
               [renderLogList L (filteredLogs sizedModel) 0 100 7,
                renderRawLog L logInfo 100 40,
                renderDetailView L logInfo 100 40]]) \<and>
   (\<exists>body. renderRawLog L logInfo 100 40 = Render L (rawStyle 100 40) body) \<and>
   (\<exists>body. renderDetailView L logInfo 100 40 = Render L (detailStyle 100 40) body) \<and>
   Height 40 \<in> set (rawStyle 100 40) \<and> Height 3 \<notin> set (rawStyle 100 40) \<and>
   Height 40 \<in> set (detailStyle 100 40) \<and> Height 26 \<notin> set (detailStyle 100 40)"
proof -
  have h: "viewHeights (height sizedModel) = (7, 3, 26)"
    by (simp add: viewHeights_def sizedModel_fields Let_def)
  have v: "View L sizedModel =
     Inr (JoinVertical L
            [viewHeader L sizedModel,
             JoinVertical L
               [renderLogList L (filteredLogs sizedModel) 0 100 7,
                renderRawLog L logInfo 100 40,
                renderDetailView L logInfo 100 40]])"
    unfolding View_def h by (simp add: sizedModel_fields Let_def)
  have r: "\<exists>body. renderRawLog L logInfo 100 40 = Render L (rawStyle 100 40) body"
    unfolding renderRawLog_def by (rule exI, rule refl)
  have d: "\<exists>body. renderDetailView L logInfo 100 40 = Render L (detailStyle 100 40) body"
    by (simp add: renderDetailView_def) (rule exI, rule refl)
  have s: "Height 40 \<in> set (rawStyle 100 40)" "Height 3 \<notin> set (rawStyle 100 40)"
    "Height 40 \<in> set (detailStyle 100 40)" "Height 26 \<notin> set (detailStyle 100 40)"
    by (simp_all add: rawStyle_def detailStyle_def)
  show ?thesis using h v r d s by blast
qed

subsection \<open>The raw panel\<close>




end
